theory Spec2Isabelle
  imports Main
begin

section \<open>Data model\<close>

text \<open>
  The models of the furniture-hub backend that the order and payment workflow uses:
  the \<^verbatim>\<open>Product\<close> and \<^verbatim>\<open>Order\<close> schemas, the M-Pesa service and the order and payment
  controllers. Conventions of the embedding:
  \<^item> a JavaScript \<^verbatim>\<open>Number\<close> that holds a quantity, a stock level or an amount in KES is an
    \<open>int\<close>; a \<^verbatim>\<open>Date\<close> is a \<open>nat\<close> (milliseconds), and every \<^verbatim>\<open>new Date()\<close> of the source
    is a parameter of the function that evaluates it;
  \<^item> a field that can be \<^verbatim>\<open>undefined\<close> is an \<open>option\<close>;
  \<^item> a string is a list of code units below 256;
  \<^item> the \<^verbatim>\<open>products\<close> collection is a map from \<^verbatim>\<open>_id\<close> to document, the \<^verbatim>\<open>orders\<close>
    collection a list of documents in natural order (\<^verbatim>\<open>findOne\<close> returns the first match);
  \<^item> an \<^verbatim>\<open>async\<close> schema method that mutates \<^verbatim>\<open>this\<close> and ends with
    \<^verbatim>\<open>await this.save()\<close> is the function from the document to the mutated document; the
    controller that called it writes the document back with \<open>saveOrder\<close>;
  \<^item> a \<^verbatim>\<open>throw\<close> is the \<open>Inl\<close> of a sum, \<^verbatim>\<open>next(err)\<close> is the outcome \<open>Next err\<close>;
  \<^item> the record \<open>Order\<close> holds the paths that the order schema declares; the
    \<^verbatim>\<open>createdAt\<close> and \<^verbatim>\<open>updatedAt\<close> that the schema option \<^verbatim>\<open>timestamps\<close> adds, and that
    a save maintains, are not in the model, and no statement below is about them;
  \<^item> a query succeeds, and so does the save of a stored document, except in the callback
    handler, where a failing query and a failing save are inputs; the validation of a new
    order is part of \<open>Order_create\<close>.
\<close>

type_synonym objectId = string
type_synonym date = nat

record StkResponseData =
  ResponseCode :: "string option"
  ResponseDescription :: "string option"
  CheckoutRequestID :: "string option"
  MerchantRequestID :: "string option"
  CustomerMessage :: "string option"
  errorMessage :: "string option"

text \<open>
  Modelled from the spec: the class \<^verbatim>\<open>ErrorResponse\<close> of \<^verbatim>\<open>middleware/errorHandler\<close>, which
  is not among the sources. The spec's error taxonomy gives every error a message and an
  HTTP status, and every use in the sources is \<^verbatim>\<open>new ErrorResponse(message, statusCode)\<close>.

  The values the source throws are a plain \<^verbatim>\<open>Error(message)\<close>, an \<^verbatim>\<open>ErrorResponse\<close>, and
  the rejection of an axios call, which has a message and, when the gateway answered,
  \<^verbatim>\<open>response.data\<close>. The document mapper rejects a document that fails validation with a
  \<^verbatim>\<open>ValidationError\<close>: the model keeps its message and the paths that failed.
\<close>

datatype js_error =
  Error string
  | ErrorResponse string nat
  | AxiosError string "StkResponseData option"
  | ValidationError string "string list"

fun message :: "js_error \<Rightarrow> string" where
  "message (Error m) = m"
| "message (ErrorResponse m c) = m"
| "message (AxiosError m r) = m"
| "message (ValidationError m ps) = m"

fun responseData :: "js_error \<Rightarrow> StkResponseData option" where
  "responseData (AxiosError m r) = r"
| "responseData e = None"

datatype PaymentMethod = mpesa | card_payment | cod

datatype PaymentStatus = payment_pending | paid | failed | refunded

datatype OrderStatus = pending | confirmed | processing | shipped | delivered | cancelled

fun statusName :: "OrderStatus \<Rightarrow> string" where
  "statusName pending = ''pending''"
| "statusName confirmed = ''confirmed''"
| "statusName processing = ''processing''"
| "statusName shipped = ''shipped''"
| "statusName delivered = ''delivered''"
| "statusName cancelled = ''cancelled''"

record Product =
  name :: string
  price :: int
  salePrice :: "int option"
  stock :: int
  images :: "string list"

record OrderItem =
  product :: objectId
  item_name :: string
  item_price :: int
  quantity :: int
  imageUrl :: string

record StatusEntry =
  status :: OrderStatus
  timestamp :: date
  noteText :: "string option"
  updatedBy :: "objectId option"

text \<open>
  The four paths that the schema declares under \<^verbatim>\<open>paymentDetails\<close>. The schema is strict:
  a save keeps no other key, so neither the \<^verbatim>\<open>failureReason\<close> that the callback handler
  assigns nor a further key of the argument of \<^verbatim>\<open>markAsPaid\<close> is stored.
\<close>

record PaymentDetails =
  mpesaReceiptNumber :: "string option"
  transactionId :: "string option"
  phoneNumber :: "string option"
  paidAt :: "date option"

record Customer =
  fullName :: string
  email :: string
  phone :: string
  address :: string
  city :: string
  county :: "string option"

record Order =
  oid :: objectId
  orderNumber :: string
  user :: objectId
  customer :: Customer
  items :: "OrderItem list"
  subtotal :: int
  deliveryFee :: int
  orderTotal :: int
  paymentMethod :: PaymentMethod
  paymentStatus :: PaymentStatus
  paymentDetails :: PaymentDetails
  orderStatus :: OrderStatus
  statusHistory :: "StatusEntry list"
  deliveryDate :: "date option"
  orderNotes :: "string option"
  cancelReason :: "string option"
  refundAmount :: "int option"

type_synonym ProductStore = "objectId \<Rightarrow> Product option"

record DB =
  products :: ProductStore
  orders :: "Order list"

text \<open>What a controller does with the request: \<^verbatim>\<open>next(err)\<close> or \<^verbatim>\<open>res.status(n).json(body)\<close>.\<close>

datatype body =
  OrderData string Order
  | StkData string "string option" "string option"
  | Ack int string

datatype outcome = Next js_error | Json nat body

section \<open>Strings\<close>

text \<open>
  The white space of \<^verbatim>\<open>\s\<close> and of \<^verbatim>\<open>trim\<close> among the code units below 256: tab, line
  feed, vertical tab, form feed, carriage return, space and the no-break space.
\<close>

definition isSpace :: "char \<Rightarrow> bool" where
  "isSpace c = (c \<in> set [CHR 0x09, CHR 0x0A, CHR 0x0B, CHR 0x0C, CHR 0x0D, CHR '' '', CHR 0xA0])"

definition isDigit :: "char \<Rightarrow> bool" where
  "isDigit c = (c \<in> set ''0123456789'')"

definition startsWith :: "string \<Rightarrow> string \<Rightarrow> bool" where
  "startsWith s p = (take (length p) s = p)"

definition trim :: "string \<Rightarrow> string" where
  "trim s = rev (dropWhile isSpace (rev (dropWhile isSpace s)))"

definition toLowerChar :: "char \<Rightarrow> char" where
  "toLowerChar c =
     (case map_of (zip ''ABCDEFGHIJKLMNOPQRSTUVWXYZ'' ''abcdefghijklmnopqrstuvwxyz'') c of
        Some l \<Rightarrow> l
      | None \<Rightarrow> c)"

definition toLowerCase :: "string \<Rightarrow> string" where
  "toLowerCase s = map toLowerChar s"

text \<open>\<^verbatim>\<open>a || b\<close> on strings that may be undefined: the empty string is falsy too.\<close>

fun truthy :: "string option \<Rightarrow> bool" where
  "truthy None = False"
| "truthy (Some s) = (s \<noteq> [])"

definition orElse :: "string option \<Rightarrow> string \<Rightarrow> string" where
  "orElse a b = (case a of Some s \<Rightarrow> (if s \<noteq> [] then s else b) | None \<Rightarrow> b)"

section \<open>M-Pesa service\<close>

text \<open>\<^verbatim>\<open>phone.replace(/[\s\-\+]/g, '')\<close> removes the characters that \<open>stripped\<close> holds of.\<close>

definition stripped :: "char \<Rightarrow> bool" where
  "stripped c = (isSpace c \<or> c = CHR ''-'' \<or> c = CHR ''+'')"

definition formatPhoneNumber :: "string \<Rightarrow> js_error + string" where
  "formatPhoneNumber phoneIn =
     (let cleaned = filter (\<lambda>c. \<not> stripped c) phoneIn;
          cleaned = (if startsWith cleaned ''0'' then ''254'' @ drop 1 cleaned else cleaned);
          cleaned = (if \<not> startsWith cleaned ''254'' then ''254'' @ cleaned else cleaned)
      in if length cleaned \<noteq> 12 then Inl (Error ''Invalid phone number format'')
         else Inr cleaned)"

text \<open>
  The gateway is outside the program: its answers are parameters. \<open>oauth\<close> is the outcome
  of the \<^verbatim>\<open>axios.get\<close> on the OAuth endpoint (a rejection, or \<^verbatim>\<open>response.data.access_token\<close>),
  \<open>stkPush\<close> the outcome of the \<^verbatim>\<open>axios.post\<close> of the push request, given the bearer token
  and the payload. The payload's fields that come from the configuration and from the
  clock alone (short code, password, timestamp, transaction type, callback URL) are left
  out of the model.
\<close>

record StkPayload =
  Amount :: int
  PartyA :: string
  PhoneNumber :: string
  AccountReference :: string
  TransactionDesc :: string

record Gateway =
  oauth :: "js_error + string option"
  stkPush :: "string option \<Rightarrow> StkPayload \<Rightarrow> js_error + StkResponseData"

record StkResult =
  stk_message :: string
  checkoutRequestId :: "string option"
  merchantRequestId :: "string option"
  customerMessage :: "string option"

definition generateAccessToken :: "Gateway \<Rightarrow> js_error + string option" where
  "generateAccessToken gw =
     (case oauth gw of
        Inl e \<Rightarrow> Inl (ErrorResponse ''Failed to generate M-Pesa access token'' 500)
      | Inr tok \<Rightarrow> Inr tok)"

text \<open>The \<^verbatim>\<open>try\<close> block of \<^verbatim>\<open>initiateSTKPush\<close>.\<close>

definition stkAttempt ::
  "Gateway \<Rightarrow> string \<Rightarrow> int \<Rightarrow> string \<Rightarrow> string option \<Rightarrow> js_error + StkResult" where
  "stkAttempt gw phoneIn amount accountReference transactionDesc =
     (if phoneIn = [] \<or> amount = 0 \<or> accountReference = []
      then Inl (Error ''Phone, amount, and account reference are required'')
      else if amount < 1 then Inl (Error ''Amount must be at least 1 KES'')
      else
        (case generateAccessToken gw of
           Inl e \<Rightarrow> Inl e
         | Inr accessToken \<Rightarrow>
             (case formatPhoneNumber phoneIn of
                Inl e \<Rightarrow> Inl e
              | Inr formattedPhone \<Rightarrow>
                  (case stkPush gw accessToken
                          \<lparr>Amount = amount, PartyA = formattedPhone,
                           PhoneNumber = formattedPhone,
                           AccountReference = accountReference,
                           TransactionDesc =
                             orElse transactionDesc ''Payment for furniture order''\<rparr> of
                     Inl e \<Rightarrow> Inl e
                   | Inr d \<Rightarrow>
                       if ResponseCode d = Some ''0''
                       then Inr \<lparr>stk_message = ''STK Push sent successfully'',
                                 checkoutRequestId = CheckoutRequestID d,
                                 merchantRequestId = MerchantRequestID d,
                                 customerMessage = CustomerMessage d\<rparr>
                       else Inl (Error (orElse (ResponseDescription d) ''STK Push failed''))))))"

text \<open>
  The \<^verbatim>\<open>catch\<close> block: \<^verbatim>\<open>error.response?.data?.errorMessage ||
  error.response?.data?.ResponseDescription || error.message\<close>, rethrown with status 400.
\<close>

definition stkErrorMessage :: "js_error \<Rightarrow> string" where
  "stkErrorMessage e =
     (case responseData e of
        None \<Rightarrow> message e
      | Some d \<Rightarrow> orElse (errorMessage d) (orElse (ResponseDescription d) (message e)))"

definition initiateSTKPush ::
  "Gateway \<Rightarrow> string \<Rightarrow> int \<Rightarrow> string \<Rightarrow> string option \<Rightarrow> js_error + StkResult" where
  "initiateSTKPush gw phoneIn amount accountReference transactionDesc =
     (case stkAttempt gw phoneIn amount accountReference transactionDesc of
        Inl e \<Rightarrow> Inl (ErrorResponse (''M-Pesa payment failed: '' @ stkErrorMessage e) 400)
      | Inr r \<Rightarrow> Inr r)"

text \<open>The callback document that the gateway posts, and what \<^verbatim>\<open>processCallback\<close> makes of it.\<close>

datatype js_value = JNum int | JStr string | JUndefined

record MetaItem =
  Name :: string
  Value :: "string option"

record Metadata =
  Item :: "MetaItem list option"

record StkCallback =
  cb_MerchantRequestID :: "string option"
  cb_CheckoutRequestID :: "string option"
  ResultCode :: js_value
  ResultDesc :: "string option"
  CallbackMetadata :: "Metadata option"

record CallbackBody =
  stkCallback :: "StkCallback option"

record CallbackData =
  Body :: "CallbackBody option"

record CallbackResult =
  res_merchantRequestId :: "string option"
  res_checkoutRequestId :: "string option"
  res_resultCode :: js_value
  res_resultDesc :: "string option"
  res_success :: bool
  res_amount :: "string option"
  res_mpesaReceiptNumber :: "string option"
  res_transactionDate :: "string option"
  res_phoneNumber :: "string option"

definition metaValue :: "MetaItem list \<Rightarrow> string \<Rightarrow> string option" where
  "metaValue its n = (case find (\<lambda>item. Name item = n) its of None \<Rightarrow> None | Some item \<Rightarrow> Value item)"

definition callbackFailure :: js_error where
  "callbackFailure = ErrorResponse ''Failed to process M-Pesa callback'' 500"

text \<open>
  Reading a property of \<^verbatim>\<open>undefined\<close> throws a \<^verbatim>\<open>TypeError\<close>, which the \<^verbatim>\<open>catch\<close> of
  \<^verbatim>\<open>processCallback\<close> turns into \<open>callbackFailure\<close>: a missing body, \<^verbatim>\<open>Body\<close>,
  \<^verbatim>\<open>stkCallback\<close> and, on success, a missing \<^verbatim>\<open>CallbackMetadata\<close> or \<^verbatim>\<open>Item\<close>.
\<close>

definition processCallback :: "CallbackData option \<Rightarrow> js_error + CallbackResult" where
  "processCallback callbackData =
     (case callbackData of
        None \<Rightarrow> Inl callbackFailure
      | Some cd \<Rightarrow>
          (case Body cd of
             None \<Rightarrow> Inl callbackFailure
           | Some b \<Rightarrow>
               (case stkCallback b of
                  None \<Rightarrow> Inl callbackFailure
                | Some cb \<Rightarrow>
                    let result = \<lparr>res_merchantRequestId = cb_MerchantRequestID cb,
                                  res_checkoutRequestId = cb_CheckoutRequestID cb,
                                  res_resultCode = ResultCode cb,
                                  res_resultDesc = ResultDesc cb,
                                  res_success = False,
                                  res_amount = None,
                                  res_mpesaReceiptNumber = None,
                                  res_transactionDate = None,
                                  res_phoneNumber = None\<rparr>
                    in if ResultCode cb = JNum 0
                       then (case CallbackMetadata cb of
                               None \<Rightarrow> Inl callbackFailure
                             | Some md \<Rightarrow>
                                 (case Item md of
                                    None \<Rightarrow> Inl callbackFailure
                                  | Some callbackMetadata \<Rightarrow>
                                      Inr (result
                                        \<lparr>res_success := True,
                                         res_amount := metaValue callbackMetadata ''Amount'',
                                         res_mpesaReceiptNumber :=
                                           metaValue callbackMetadata ''MpesaReceiptNumber'',
                                         res_transactionDate :=
                                           metaValue callbackMetadata ''TransactionDate'',
                                         res_phoneNumber :=
                                           metaValue callbackMetadata ''PhoneNumber''\<rparr>)))
                       else Inr (result\<lparr>res_success := False\<rparr>))))"

section \<open>Product model\<close>

definition updateStock :: "Product \<Rightarrow> int \<Rightarrow> Product" where
  "updateStock p q =
     (let p1 = p\<lparr>stock := stock p - q\<rparr>
      in if stock p1 < 0 then p1\<lparr>stock := 0\<rparr> else p1)"

section \<open>Order model\<close>

definition isCompleted :: "Order \<Rightarrow> bool" where
  "isCompleted ord = (orderStatus ord = delivered)"

definition canBeCancelled :: "Order \<Rightarrow> bool" where
  "canBeCancelled ord = (orderStatus ord \<in> set [pending, confirmed])"

definition updateStatus ::
  "Order \<Rightarrow> OrderStatus \<Rightarrow> string option \<Rightarrow> objectId option \<Rightarrow> date \<Rightarrow> Order" where
  "updateStatus ord newStatus noteIn by now =
     ord\<lparr>orderStatus := newStatus,
         statusHistory := statusHistory ord @
           [\<lparr>status = newStatus, timestamp = now,
             noteText = Some (orElse noteIn (''Status changed to '' @ statusName newStatus)),
             updatedBy = by\<rparr>]\<rparr>"

text \<open>
  The argument of \<^verbatim>\<open>markAsPaid\<close> is spread over the stored details: a key it has replaces
  the stored value, also when its value is \<^verbatim>\<open>undefined\<close> (\<open>Some None\<close>); a key it lacks
  (\<open>None\<close>) keeps the stored value. \<^verbatim>\<open>paidAt\<close> is set after the spread.
\<close>

record PaymentUpdate =
  upd_mpesaReceiptNumber :: "string option option"
  upd_transactionId :: "string option option"
  upd_phoneNumber :: "string option option"

definition spread :: "'a option \<Rightarrow> 'a option option \<Rightarrow> 'a option" where
  "spread old upd = (case upd of None \<Rightarrow> old | Some v \<Rightarrow> v)"

text \<open>
  \<open>now\<close> is the \<^verbatim>\<open>new Date()\<close> of \<^verbatim>\<open>paidAt\<close>, \<open>now'\<close> the one that the nested
  \<^verbatim>\<open>updateStatus\<close> reads.
\<close>

definition markAsPaid :: "Order \<Rightarrow> PaymentUpdate \<Rightarrow> date \<Rightarrow> date \<Rightarrow> Order" where
  "markAsPaid ord pd now now' =
     (let old = paymentDetails ord;
          ord1 = ord\<lparr>paymentStatus := paid,
                     paymentDetails :=
                       \<lparr>mpesaReceiptNumber =
                          spread (mpesaReceiptNumber old) (upd_mpesaReceiptNumber pd),
                        transactionId = spread (transactionId old) (upd_transactionId pd),
                        phoneNumber = spread (phoneNumber old) (upd_phoneNumber pd),
                        paidAt = Some now\<rparr>\<rparr>
      in if orderStatus ord1 = pending
         then updateStatus ord1 confirmed (Some ''Payment received and order confirmed'') None now'
         else ord1)"

text \<open>The schema method \<^verbatim>\<open>cancelOrder\<close> (the controller of that name is \<open>cancelOrder\<close> below).\<close>

definition Order_cancelOrder ::
  "Order \<Rightarrow> string option \<Rightarrow> objectId option \<Rightarrow> date \<Rightarrow> js_error + Order" where
  "Order_cancelOrder ord reason cancelledBy now =
     (if \<not> canBeCancelled ord then Inl (Error ''Order cannot be cancelled at this stage'')
      else Inr (ord\<lparr>orderStatus := cancelled,
                    cancelReason := reason,
                    statusHistory := statusHistory ord @
                      [\<lparr>status = cancelled, timestamp = now, noteText = reason,
                        updatedBy = cancelledBy\<rparr>]\<rparr>))"

definition findById :: "objectId \<Rightarrow> Order list \<Rightarrow> Order option" where
  "findById i os = find (\<lambda>x. oid x = i) os"

text \<open>\<^verbatim>\<open>save\<close> of a stored order: the document with that \<^verbatim>\<open>_id\<close> is replaced.\<close>

fun saveOrder :: "Order \<Rightarrow> Order list \<Rightarrow> Order list" where
  "saveOrder ord [] = []"
| "saveOrder ord (x # xs) = (if oid x = oid ord then ord # xs else x # saveOrder ord xs)"

section \<open>Helpers\<close>

text \<open>
  \<^verbatim>\<open>deliveryRates[normalizedCity] || deliveryRates.default\<close>: a rate of 0 is falsy, so
  the default applies to it as to a city that the table lacks. The table is a plain
  object: for the two lower-case names that it inherits, \<^verbatim>\<open>constructor\<close> and
  \<^verbatim>\<open>__proto__\<close>, the lookup gives a function or an object, which is truthy and is
  returned; the model's result is then \<open>None\<close>, a value that is not a number.
\<close>

definition deliveryRates :: "(string \<times> int) list" where
  "deliveryRates =
     [(''nairobi'', 0), (''mombasa'', 1000), (''kisumu'', 1500), (''nakuru'', 800),
      (''eldoret'', 1200), (''thika'', 500), (''default'', 1000)]"

definition inheritedNames :: "string list" where
  "inheritedNames = [''constructor'', ''__proto__'']"

definition calculateDeliveryFee :: "string \<Rightarrow> int option" where
  "calculateDeliveryFee c =
     (let normalizedCity = trim (toLowerCase c);
          dflt = (case map_of deliveryRates ''default'' of Some r \<Rightarrow> r | None \<Rightarrow> 0)
      in if normalizedCity \<in> set inheritedNames then None
         else case map_of deliveryRates normalizedCity of
                Some r \<Rightarrow> Some (if r \<noteq> 0 then r else dflt)
              | None \<Rightarrow> Some dflt)"

section \<open>Order controller\<close>

record ItemReq =
  req_product :: objectId
  req_quantity :: int

record CreateOrderReq =
  co_user :: objectId
  co_customer :: Customer
  co_items :: "ItemReq list"
  co_paymentMethod :: "PaymentMethod option"
  co_notes :: "string option"

text \<open>
  What the creation of a document takes from its environment: the new \<^verbatim>\<open>_id\<close>, the order
  number that the first \<^verbatim>\<open>pre('save')\<close> hook computes from the date and the count of the
  day's orders, the clock, and the message that the document mapper gives the
  \<^verbatim>\<open>ValidationError\<close> of a document that it rejects.
\<close>

record OrderEnv =
  newId :: objectId
  newOrderNumber :: string
  createdAt :: date
  validationMessage :: string

text \<open>\<^verbatim>\<open>product.salePrice || product.price\<close>: a sale price of 0 is falsy.\<close>

definition effectivePrice :: "Product \<Rightarrow> int" where
  "effectivePrice p =
     (case salePrice p of Some s \<Rightarrow> (if s \<noteq> 0 then s else price p) | None \<Rightarrow> price p)"

definition firstImage :: "Product \<Rightarrow> string" where
  "firstImage p = (case images p of [] \<Rightarrow> [] | u # us \<Rightarrow> u)"

text \<open>
  The loop of \<^verbatim>\<open>createOrder\<close> over the requested items. Each \<^verbatim>\<open>updateStock\<close> saves the
  product at once, so the store is returned with the error as well as with the result.
\<close>

fun orderLoop ::
  "ItemReq list \<Rightarrow> OrderItem list \<Rightarrow> int \<Rightarrow> ProductStore \<Rightarrow>
     (js_error + OrderItem list \<times> int) \<times> ProductStore" where
  "orderLoop [] orderItems sub ps = (Inr (orderItems, sub), ps)"
| "orderLoop (item # rest) orderItems sub ps =
     (case ps (req_product item) of
        None \<Rightarrow> (Inl (ErrorResponse (''Product '' @ req_product item @ '' not found'') 404), ps)
      | Some prd \<Rightarrow>
          if stock prd < req_quantity item
          then (Inl (ErrorResponse (''Insufficient stock for '' @ name prd) 400), ps)
          else
            let itemPrice = effectivePrice prd;
                itemSubtotal = itemPrice * req_quantity item
            in orderLoop rest
                 (orderItems @
                    [\<lparr>product = req_product item, item_name = name prd,
                      item_price = itemPrice, quantity = req_quantity item,
                      imageUrl = firstImage prd\<rparr>])
                 (sub + itemSubtotal)
                 (ps(req_product item \<mapsto> updateStock prd (req_quantity item))))"

text \<open>
  \<^verbatim>\<open>Order.create\<close>. The document mapper validates a new document before it runs the
  \<^verbatim>\<open>pre('save')\<close> hooks of the schema: its validation is the first hook of a save.
  \<^verbatim>\<open>orderNumber\<close> is \<^verbatim>\<open>required: true\<close>, and only the first \<^verbatim>\<open>pre('save')\<close> hook of the
  schema computes it, so a document that is created without an order number is rejected;
  so is one whose delivery fee or total is not a number. The other validators are taken to
  pass. A document that is accepted gets the schema's defaults and the two hooks of a new
  document (the order number, the first history entry). \<open>orderNo\<close> is the order number in
  the object that the caller hands over, \<open>None\<close> when the object has none.
\<close>

definition Order_create ::
  "OrderEnv \<Rightarrow> string option \<Rightarrow> objectId \<Rightarrow> Customer \<Rightarrow> OrderItem list \<Rightarrow> int \<Rightarrow>
     int option \<Rightarrow> int option \<Rightarrow> PaymentMethod \<Rightarrow> string option \<Rightarrow> js_error + Order" where
  "Order_create env orderNo u c its sub fee tot pm ns =
     (case (orderNo, fee, tot) of
        (Some n, Some f, Some t) \<Rightarrow>
          Inr \<lparr>oid = newId env, orderNumber = newOrderNumber env, user = u, customer = c,
               items = its, subtotal = sub, deliveryFee = f, orderTotal = t,
               paymentMethod = pm, paymentStatus = payment_pending,
               paymentDetails = \<lparr>mpesaReceiptNumber = None, transactionId = None,
                                 phoneNumber = None, paidAt = None\<rparr>,
               orderStatus = pending,
               statusHistory = [\<lparr>status = pending, timestamp = createdAt env,
                                 noteText = Some ''Order created'', updatedBy = None\<rparr>],
               deliveryDate = None, orderNotes = ns, cancelReason = None,
               refundAmount = None\<rparr>
      | _ \<Rightarrow>
          Inl (ValidationError (validationMessage env)
                 ((if orderNo = None then [''orderNumber''] else []) @
                  (if fee = None then [''deliveryFee''] else []) @
                  (if tot = None then [''total''] else []))))"

text \<open>
  The object that \<^verbatim>\<open>createOrder\<close> hands to \<^verbatim>\<open>Order.create\<close> has the keys \<^verbatim>\<open>user\<close>,
  \<^verbatim>\<open>customer\<close>, \<^verbatim>\<open>items\<close>, \<^verbatim>\<open>subtotal\<close>, \<^verbatim>\<open>deliveryFee\<close>, \<^verbatim>\<open>total\<close>, \<^verbatim>\<open>paymentMethod\<close> and
  \<^verbatim>\<open>notes\<close>, and no \<^verbatim>\<open>orderNumber\<close>. \<^verbatim>\<open>asyncHandler\<close> passes a rejection to \<^verbatim>\<open>next\<close>; the
  stock that the loop has taken stays taken. The cart and the confirmation email, which
  follow the creation, are collaborators outside the model. The response carries the order.
\<close>

definition createOrder :: "CreateOrderReq \<Rightarrow> OrderEnv \<Rightarrow> DB \<Rightarrow> outcome \<times> DB" where
  "createOrder req env db =
     (if co_items req = []
      then (Next (ErrorResponse ''Order must contain at least one item'' 400), db)
      else
        (case orderLoop (co_items req) [] 0 (products db) of
           (Inl e, ps) \<Rightarrow> (Next e, db\<lparr>products := ps\<rparr>)
         | (Inr (orderItems, sub), ps) \<Rightarrow>
             let fee = calculateDeliveryFee (city (co_customer req));
                 tot = map_option (\<lambda>f. sub + f) fee
             in (case Order_create env None (co_user req) (co_customer req) orderItems sub
                        fee tot
                        (case co_paymentMethod req of None \<Rightarrow> mpesa | Some pm \<Rightarrow> pm)
                        (co_notes req) of
                   Inl e \<Rightarrow> (Next e, db\<lparr>products := ps\<rparr>)
                 | Inr ord \<Rightarrow>
                     (Json 201 (OrderData ''Order created successfully'' ord),
                      db\<lparr>products := ps, orders := orders db @ [ord]\<rparr>))))"

record StatusReq =
  sr_id :: objectId
  sr_status :: "OrderStatus option"
  sr_note :: "string option"
  sr_user :: objectId

definition updateOrderStatus :: "StatusReq \<Rightarrow> date \<Rightarrow> DB \<Rightarrow> outcome \<times> DB" where
  "updateOrderStatus req now db =
     (case sr_status req of
        None \<Rightarrow> (Next (ErrorResponse ''Status is required'' 400), db)
      | Some st \<Rightarrow>
          (case findById (sr_id req) (orders db) of
             None \<Rightarrow> (Next (ErrorResponse ''Order not found'' 404), db)
           | Some ord \<Rightarrow>
               let ord' = updateStatus ord st (sr_note req) (Some (sr_user req)) now
               in (Json 200 (OrderData ''Order status updated'' ord'),
                   db\<lparr>orders := saveOrder ord' (orders db)\<rparr>)))"

text \<open>
  The loop of the controller \<^verbatim>\<open>cancelOrder\<close>:
  \<^verbatim>\<open>Product.findByIdAndUpdate(item.product, {$inc: {stock: item.quantity}})\<close>,
  which does nothing for a product that is no longer in the collection.
\<close>

fun restoreStock :: "OrderItem list \<Rightarrow> ProductStore \<Rightarrow> ProductStore" where
  "restoreStock [] ps = ps"
| "restoreStock (item # rest) ps =
     restoreStock rest
       (case ps (product item) of
          None \<Rightarrow> ps
        | Some p \<Rightarrow> ps(product item \<mapsto> p\<lparr>stock := stock p + quantity item\<rparr>))"

record CancelReq =
  cr_id :: objectId
  cr_reason :: "string option"
  cr_user :: objectId
  cr_role :: string

definition cancelOrder :: "CancelReq \<Rightarrow> date \<Rightarrow> DB \<Rightarrow> outcome \<times> DB" where
  "cancelOrder req now db =
     (case findById (cr_id req) (orders db) of
        None \<Rightarrow> (Next (ErrorResponse ''Order not found'' 404), db)
      | Some ord \<Rightarrow>
          if user ord \<noteq> cr_user req \<and> cr_role req \<noteq> ''admin''
          then (Next (ErrorResponse ''Not authorized to cancel this order'' 403), db)
          else
            (case Order_cancelOrder ord
                    (Some (orElse (cr_reason req) ''Cancelled by customer''))
                    (Some (cr_user req)) now of
               Inl e \<Rightarrow> (Next (ErrorResponse (message e) 400), db)
             | Inr ord' \<Rightarrow>
                 (Json 200 (OrderData ''Order cancelled successfully'' ord'),
                  db\<lparr>orders := saveOrder ord' (orders db),
                     products := restoreStock (items ord') (products db)\<rparr>)))"

section \<open>Payment controller\<close>

text \<open>A field that the request lacks is the empty string or 0: both are falsy.\<close>

record PaymentReq =
  pr_user :: objectId
  pr_phone :: string
  pr_amount :: int
  pr_orderId :: objectId

definition initiatePayment :: "Gateway \<Rightarrow> PaymentReq \<Rightarrow> DB \<Rightarrow> outcome \<times> DB" where
  "initiatePayment gw req db =
     (if pr_phone req = [] \<or> pr_amount req = 0 \<or> pr_orderId req = []
      then (Next (ErrorResponse ''Phone, amount, and order ID are required'' 400), db)
      else
        (case findById (pr_orderId req) (orders db) of
           None \<Rightarrow> (Next (ErrorResponse ''Order not found'' 404), db)
         | Some ord \<Rightarrow>
             if user ord \<noteq> pr_user req
             then (Next (ErrorResponse ''Not authorized'' 403), db)
             else if paymentStatus ord = paid
             then (Next (ErrorResponse ''Order is already paid'' 400), db)
             else if \<bar>pr_amount req - orderTotal ord\<bar> > 1
             then (Next (ErrorResponse ''Payment amount does not match order total'' 400), db)
             else
               (case initiateSTKPush gw (pr_phone req) (pr_amount req) (orderNumber ord)
                       (Some (''Payment for order '' @ orderNumber ord)) of
                  Inl e \<Rightarrow> (Next e, db)
                | Inr result \<Rightarrow>
                    let ord' = ord\<lparr>paymentDetails := (paymentDetails ord)
                                 \<lparr>phoneNumber := Some (pr_phone req),
                                  transactionId := checkoutRequestId result\<rparr>\<rparr>
                    in (Json 200 (StkData (stk_message result) (checkoutRequestId result)
                                   (merchantRequestId result)),
                        db\<lparr>orders := saveOrder ord' (orders db)\<rparr>))))"

text \<open>
  The internal errors of the callback handler besides those of \<^verbatim>\<open>processCallback\<close>: a
  query or a save that the database rejects. Both are parameters.
\<close>

record Faults =
  findFails :: bool
  saveFails :: bool

definition accepted :: outcome where
  "accepted = Json 200 (Ack 0 ''Accepted'')"

text \<open>
  \<^verbatim>\<open>Order.findOne({'paymentDetails.transactionId': result.checkoutRequestId})\<close>: the first
  order whose transaction id is the callback's; an \<^verbatim>\<open>undefined\<close> id in the filter matches
  the orders that have none. On a failed payment the handler sets the payment status and
  assigns \<^verbatim>\<open>paymentDetails.failureReason\<close>, which is not a path of the schema: the save
  stores the status alone.
\<close>

definition findByTransactionId :: "string option \<Rightarrow> Order list \<Rightarrow> Order option" where
  "findByTransactionId t os = find (\<lambda>x. transactionId (paymentDetails x) = t) os"

definition mpesaCallback ::
  "CallbackData option \<Rightarrow> Faults \<Rightarrow> date \<Rightarrow> date \<Rightarrow> DB \<Rightarrow> outcome \<times> DB" where
  "mpesaCallback reqBody faults now now' db =
     (case processCallback reqBody of
        Inl e \<Rightarrow> (accepted, db)
      | Inr result \<Rightarrow>
          if findFails faults then (accepted, db)
          else
            (case findByTransactionId (res_checkoutRequestId result) (orders db) of
               None \<Rightarrow> (accepted, db)
             | Some ord \<Rightarrow>
                 let ord' =
                       (if res_success result
                        then markAsPaid ord
                               \<lparr>upd_mpesaReceiptNumber = Some (res_mpesaReceiptNumber result),
                                upd_transactionId = Some (res_checkoutRequestId result),
                                upd_phoneNumber = Some (res_phoneNumber result)\<rparr> now now'
                        else ord\<lparr>paymentStatus := failed\<rparr>)
                 in if saveFails faults then (accepted, db)
                    else (accepted, db\<lparr>orders := saveOrder ord' (orders db)\<rparr>)))"

text \<open>The three amounts of an order, for the statements about them.\<close>

definition orderTotals :: "Order \<Rightarrow> int \<times> int \<times> int" where
  "orderTotals ord = (subtotal ord, deliveryFee ord, orderTotal ord)"

section \<open>Sample data\<close>

text \<open>
  A catalogue of two products, a customer, and a pending order of that customer for one
  chair and three desks; \<open>order1\<close> is the same order after a push payment was initiated
  for it and before any outcome arrived.
\<close>

definition chair :: Product where
  "chair = \<lparr>name = ''Chair'', price = 5000, salePrice = None, stock = 3,
            images = [''chair.jpg'']\<rparr>"

definition desk :: Product where
  "desk = \<lparr>name = ''Desk'', price = 12000, salePrice = Some 10000, stock = 2, images = []\<rparr>"

definition catalog :: ProductStore where
  "catalog = [''p1'' \<mapsto> chair, ''p2'' \<mapsto> desk]"

definition customer0 :: Customer where
  "customer0 = \<lparr>fullName = ''Amina Otieno'', email = ''amina@example.com'',
                phone = ''0712345678'', address = ''12 Moi Avenue'', city = ''Nakuru'',
                county = None\<rparr>"

definition order0 :: Order where
  "order0 =
     \<lparr>oid = ''o1'', orderNumber = ''ORD-20240105-0001'', user = ''u1'', customer = customer0,
      items = [\<lparr>product = ''p1'', item_name = ''Chair'', item_price = 5000, quantity = 1,
                imageUrl = ''chair.jpg''\<rparr>,
               \<lparr>product = ''p2'', item_name = ''Desk'', item_price = 10000, quantity = 3,
                imageUrl = []\<rparr>],
      subtotal = 35000, deliveryFee = 800, orderTotal = 35800,
      paymentMethod = mpesa, paymentStatus = payment_pending,
      paymentDetails = \<lparr>mpesaReceiptNumber = None, transactionId = None,
                        phoneNumber = None, paidAt = None\<rparr>,
      orderStatus = pending,
      statusHistory = [\<lparr>status = pending, timestamp = 100,
                        noteText = Some ''Order created'', updatedBy = None\<rparr>],
      deliveryDate = None, orderNotes = None, cancelReason = None, refundAmount = None\<rparr>"

definition order1 :: Order where
  "order1 = order0\<lparr>paymentDetails := (paymentDetails order0)
                     \<lparr>phoneNumber := Some ''0712345678'',
                      transactionId := Some ''ws_CO_1''\<rparr>\<rparr>"

definition db0 :: DB where
  "db0 = \<lparr>products = catalog, orders = [order0]\<rparr>"

definition db1 :: DB where
  "db1 = \<lparr>products = catalog, orders = [order1]\<rparr>"

definition receipt0 :: PaymentUpdate where
  "receipt0 = \<lparr>upd_mpesaReceiptNumber = Some (Some ''QGH7XYZ123''),
               upd_transactionId = Some (Some ''ws_CO_1''),
               upd_phoneNumber = Some (Some ''254712345678'')\<rparr>"

text \<open>
  Three gateways: one that accepts the push, one that reports a business failure, and one
  whose push request times out without an answer.
\<close>

definition acceptedPush :: StkResponseData where
  "acceptedPush =
     \<lparr>ResponseCode = Some ''0'',
      ResponseDescription = Some ''Success. Request accepted for processing'',
      CheckoutRequestID = Some ''ws_CO_2'', MerchantRequestID = Some ''m-2'',
      CustomerMessage = Some ''Success. Request accepted for processing'',
      errorMessage = None\<rparr>"

definition declinedPush :: StkResponseData where
  "declinedPush =
     \<lparr>ResponseCode = Some ''1'', ResponseDescription = Some ''Unable to lock subscriber'',
      CheckoutRequestID = None, MerchantRequestID = None, CustomerMessage = None,
      errorMessage = None\<rparr>"

definition gwAccepts :: Gateway where
  "gwAccepts = \<lparr>oauth = Inr (Some ''token''), stkPush = (\<lambda>tok payload. Inr acceptedPush)\<rparr>"

definition gwDeclines :: Gateway where
  "gwDeclines = \<lparr>oauth = Inr (Some ''token''), stkPush = (\<lambda>tok payload. Inr declinedPush)\<rparr>"

definition gwTimesOut :: Gateway where
  "gwTimesOut =
     \<lparr>oauth = Inr (Some ''token''),
      stkPush = (\<lambda>tok payload. Inl (AxiosError ''timeout of 30000ms exceeded'' None))\<rparr>"

text \<open>The requests that the examples below send.\<close>

definition createReq :: CreateOrderReq where
  "createReq =
     \<lparr>co_user = ''u1'', co_customer = customer0,
      co_items = [\<lparr>req_product = ''p1'', req_quantity = 1\<rparr>,
                  \<lparr>req_product = ''p2'', req_quantity = 5\<rparr>],
      co_paymentMethod = None, co_notes = None\<rparr>"


definition env0 :: OrderEnv where
  "env0 = \<lparr>newId = ''o2'', newOrderNumber = ''ORD-20240105-0002'', createdAt = 150,
            validationMessage =
              ''Order validation failed: orderNumber: Path `orderNumber` is required.''\<rparr>"

definition statusReq :: StatusReq where
  "statusReq = \<lparr>sr_id = ''o1'', sr_status = Some cancelled, sr_note = None,
                sr_user = ''admin1''\<rparr>"

definition cancelReq :: CancelReq where
  "cancelReq = \<lparr>cr_id = ''o1'', cr_reason = None, cr_user = ''u1'', cr_role = ''customer''\<rparr>"

definition payReq :: PaymentReq where
  "payReq = \<lparr>pr_user = ''u1'', pr_phone = ''0712345678'', pr_amount = 35800,
             pr_orderId = ''o1''\<rparr>"

definition callbackFor :: "string \<Rightarrow> js_value \<Rightarrow> Metadata option \<Rightarrow> CallbackData option" where
  "callbackFor checkoutId code md =
     Some \<lparr>Body = Some \<lparr>stkCallback = Some
       \<lparr>cb_MerchantRequestID = Some ''m-1'', cb_CheckoutRequestID = Some checkoutId,
        ResultCode = code, ResultDesc = Some ''The service request is processed'',
        CallbackMetadata = md\<rparr>\<rparr>\<rparr>"

definition receiptItems :: Metadata where
  "receiptItems =
     \<lparr>Item = Some [\<lparr>Name = ''Amount'', Value = Some ''35800''\<rparr>,
                   \<lparr>Name = ''MpesaReceiptNumber'', Value = Some ''QGH7XYZ123''\<rparr>,
                   \<lparr>Name = ''TransactionDate'', Value = Some ''20240105101500''\<rparr>,
                   \<lparr>Name = ''PhoneNumber'', Value = Some ''254712345678''\<rparr>]\<rparr>"

definition noFaults :: Faults where
  "noFaults = \<lparr>findFails = False, saveFails = False\<rparr>"

section \<open>Phone normalisation\<close>

lemma startsWith_zero: "startsWith s ''0'' = (\<exists>r. s = CHR ''0'' # r)"
  by (cases s) (auto simp: startsWith_def)

lemma startsWith_254: "startsWith s ''254'' = (\<exists>r. s = ''254'' @ r)"
  unfolding startsWith_def
  by (metis append_eq_conv_conj length_Cons list.size(3) append_take_drop_id)

lemma not_stripped_254: "\<not> stripped CHR ''2''" "\<not> stripped CHR ''5''" "\<not> stripped CHR ''4''"
  by (simp_all add: stripped_def isSpace_def)

lemma isDigit_254: "isDigit CHR ''2''" "isDigit CHR ''5''" "isDigit CHR ''4''"
  by (simp_all add: isDigit_def)

text \<open>
  The three steps of the source come to this: the national part of the cleaned input (what
  follows a leading \<open>0\<close> or a leading \<open>254\<close>, else all of it) must have 9 characters, and
  the result is \<open>254\<close> followed by it.
\<close>

lemma formatPhoneNumber_national:
  "formatPhoneNumber phoneIn =
     (let cleaned = filter (\<lambda>c. \<not> stripped c) phoneIn;
          national = (if startsWith cleaned ''0'' then drop 1 cleaned
                      else if startsWith cleaned ''254'' then drop 3 cleaned
                      else cleaned)
      in if length national = 9 then Inr (''254'' @ national)
         else Inl (Error ''Invalid phone number format''))"
proof -
  define cleaned where "cleaned = filter (\<lambda>c. \<not> stripped c) phoneIn"
  consider (zero) r where "cleaned = CHR ''0'' # r"
    | (pre) r where "cleaned = ''254'' @ r"
    | (other) "\<not> startsWith cleaned ''0''" "\<not> startsWith cleaned ''254''"
    using startsWith_zero startsWith_254 by blast
  then show ?thesis
  proof cases
    case zero
    then show ?thesis
      by (simp add: formatPhoneNumber_def Let_def startsWith_def cleaned_def[symmetric])
  next
    case pre
    then show ?thesis
      by (simp add: formatPhoneNumber_def Let_def startsWith_def cleaned_def[symmetric])
  next
    case other
    then show ?thesis
      by (simp add: formatPhoneNumber_def Let_def cleaned_def[symmetric])
  qed
qed

lemma formatPhoneNumber_Inr:
  assumes "formatPhoneNumber phoneIn = Inr r"
  shows "length r = 12" "startsWith r ''254''" "\<forall>c\<in>set r. \<not> stripped c"
    "(\<forall>c\<in>set phoneIn. isDigit c \<or> stripped c) \<Longrightarrow> list_all isDigit r"
proof -
  define national where "national =
    (let cleaned = filter (\<lambda>c. \<not> stripped c) phoneIn
     in if startsWith cleaned ''0'' then drop 1 cleaned
        else if startsWith cleaned ''254'' then drop 3 cleaned
        else cleaned)"
  have r: "r = ''254'' @ national" "length national = 9"
    using assms unfolding formatPhoneNumber_national national_def Let_def
    by (auto split: if_splits)
  have sub: "set national \<subseteq> set (filter (\<lambda>c. \<not> stripped c) phoneIn)"
    unfolding national_def Let_def by (auto dest: in_set_dropD)
  show "length r = 12" using r by simp
  show "startsWith r ''254''" using r by (simp add: startsWith_def)
  show "\<forall>c\<in>set r. \<not> stripped c" using r sub not_stripped_254 by auto
  show "list_all isDigit r" if "\<forall>c\<in>set phoneIn. isDigit c \<or> stripped c"
    using r sub that isDigit_254 by (auto simp: list_all_iff)
qed

lemma formatPhoneNumber_Inl:
  "formatPhoneNumber phoneIn = Inl e \<Longrightarrow> e = Error ''Invalid phone number format''"
  by (auto simp: formatPhoneNumber_def Let_def split: if_splits)

lemmas phone_eval =
  formatPhoneNumber_def Let_def startsWith_def stripped_def isSpace_def isDigit_def

text \<open>
  Claim C8, as amended. For every input string, \<open>formatPhoneNumber\<close> strips white space,
  hyphens and plus signs, replaces a leading \<open>0\<close> by \<open>254\<close> and prepends \<open>254\<close> to what
  does not start with it; it fails, always with the same error, exactly when the result
  does not have 12 characters. It checks the length only: a result has 12 characters,
  starts with \<open>254\<close> and holds none of the stripped characters, and it is 12 digits when
  the input holds digits and stripped characters only.
\<close>

theorem formatPhoneNumber_normalises:
  "formatPhoneNumber phoneIn =
     (let cleaned = filter (\<lambda>c. \<not> stripped c) phoneIn;
          national = (if startsWith cleaned ''0'' then drop 1 cleaned
                      else if startsWith cleaned ''254'' then drop 3 cleaned
                      else cleaned)
      in if length national = 9 then Inr (''254'' @ national)
         else Inl (Error ''Invalid phone number format''))
   \<and> (\<forall>r. formatPhoneNumber phoneIn = Inr r \<longrightarrow>
          length r = 12 \<and> startsWith r ''254'' \<and> (\<forall>c\<in>set r. \<not> stripped c))
   \<and> (\<forall>r. formatPhoneNumber phoneIn = Inr r \<longrightarrow>
          (\<forall>c\<in>set phoneIn. isDigit c \<or> stripped c) \<longrightarrow> list_all isDigit r)
   \<and> (\<forall>e. formatPhoneNumber phoneIn = Inl e \<longrightarrow> e = Error ''Invalid phone number format'')"
  using formatPhoneNumber_national [of phoneIn] formatPhoneNumber_Inr [of phoneIn]
    formatPhoneNumber_Inl [of phoneIn]
  by blast

text \<open>
  The examples of claim C8: \<open>0712345678\<close> and \<open>+254 712 345 678\<close> normalise to
  \<open>254712345678\<close>, and so does \<open>712345678\<close>, whose result has 12 characters; \<open>12345\<close>
  fails.
\<close>

theorem formatPhoneNumber_normalises_witness:
  "formatPhoneNumber ''0712345678'' = Inr ''254712345678''
   \<and> formatPhoneNumber ''+254 712 345 678'' = Inr ''254712345678''
   \<and> formatPhoneNumber ''712345678'' = Inr ''254712345678''
   \<and> formatPhoneNumber ''12345'' = Inl (Error ''Invalid phone number format'')
   \<and> length ''254712345678'' = 12 \<and> startsWith ''254712345678'' ''254''
   \<and> list_all isDigit ''254712345678''"
proof -
  have a: "formatPhoneNumber ''0712345678'' = Inr ''254712345678''"
    using formatPhoneNumber_normalises [of "''0712345678''", THEN conjunct1]
    by (simp add: Let_def startsWith_def stripped_def isSpace_def)
  have b: "formatPhoneNumber ''+254 712 345 678'' = Inr ''254712345678''"
    using formatPhoneNumber_normalises [of "''+254 712 345 678''", THEN conjunct1]
    by (simp add: Let_def startsWith_def stripped_def isSpace_def)
  have c: "formatPhoneNumber ''712345678'' = Inr ''254712345678''"
    using formatPhoneNumber_normalises [of "''712345678''", THEN conjunct1]
    by (simp add: Let_def startsWith_def stripped_def isSpace_def)
  have d: "formatPhoneNumber ''12345'' = Inl (Error ''Invalid phone number format'')"
    using formatPhoneNumber_normalises [of "''12345''", THEN conjunct1]
    by (simp add: Let_def startsWith_def stripped_def isSpace_def)
  have digits: "\<forall>c\<in>set ''0712345678''. isDigit c \<or> stripped c"
    by (simp add: isDigit_def)
  have e: "length ''254712345678'' = 12 \<and> startsWith ''254712345678'' ''254''"
    using formatPhoneNumber_normalises [of "''0712345678''", THEN conjunct2, THEN conjunct1] a
    by (elim allE [of _ "''254712345678''"] impE) (assumption, elim conjE, intro conjI)
  have f: "list_all isDigit ''254712345678''"
    using formatPhoneNumber_normalises [of "''0712345678''", THEN conjunct2, THEN conjunct2,
        THEN conjunct1, THEN spec, THEN mp, OF a, THEN mp, OF digits] .
  from a b c d e f show ?thesis by (intro conjI) (elim conjE | assumption)+
qed

text \<open>
  Claim C8 as stated fails: a result need not be 12 digits. Nine letters are accepted
  and come back behind \<open>254\<close>.
\<close>

theorem formatPhoneNumber_digits_counterexample:
  "formatPhoneNumber ''abcdefghi'' = Inr ''254abcdefghi''
   \<and> \<not> list_all isDigit ''254abcdefghi''"
  by (simp add: phone_eval)

section \<open>Facts about the collections\<close>

lemma findById_Some: "findById i os = Some x \<Longrightarrow> oid x = i \<and> x \<in> set os"
  by (auto simp: findById_def find_Some_iff)

lemma findById_saveOrder:
  "findById i os = Some x \<Longrightarrow> oid y = i \<Longrightarrow> findById i (saveOrder y os) = Some y"
  by (induction os) (auto simp: findById_def split: if_splits)

lemma orderTotals_saveOrder:
  "x \<in> set os \<Longrightarrow> distinct (map oid os) \<Longrightarrow> oid y = oid x \<Longrightarrow>
   orderTotals y = orderTotals x \<Longrightarrow> map orderTotals (saveOrder y os) = map orderTotals os"
proof (induction os)
  case Nil
  then show ?case by simp
next
  case (Cons a os)
  show ?case
  proof (cases "oid a = oid y")
    case True
    with Cons.prems have "a = x" by (auto simp: image_iff)
    with True Cons.prems show ?thesis by simp
  next
    case False
    with Cons show ?thesis by auto
  qed
qed

lemma restoreStock_lookup:
  "restoreStock its ps i =
     map_option (\<lambda>p. p\<lparr>stock := stock p + (\<Sum>item\<leftarrow>filter (\<lambda>it. product it = i) its. quantity item)\<rparr>) (ps i)"
proof (induction its arbitrary: ps)
  case Nil
  then show ?case by (cases "ps i") simp_all
next
  case (Cons item its)
  show ?case
  proof (cases "ps (product item)")
    case None
    then show ?thesis by (cases "product item = i") (simp_all add: Cons.IH)
  next
    case (Some p)
    then show ?thesis
      by (cases "product item = i") (simp_all add: Cons.IH add.assoc)
  qed
qed

lemma orderLoop_sum:
  "orderLoop its acc sub ps = (Inr (oi, s), ps') \<Longrightarrow>
   (\<Sum>it\<leftarrow>oi. item_price it * quantity it) - s = (\<Sum>it\<leftarrow>acc. item_price it * quantity it) - sub"
proof (induction its arbitrary: acc sub ps)
  case Nil
  then show ?case by simp
next
  case (Cons item its)
  then show ?case
    by (auto simp: Let_def split: option.splits if_splits)
qed

section \<open>Stock decrement\<close>



section \<open>Marking an order as paid\<close>

lemma markAsPaid_twice:
  "markAsPaid (markAsPaid ord pd t1 t1') pd t2 t2' =
     (markAsPaid ord pd t1 t1')
       \<lparr>paymentDetails := (paymentDetails (markAsPaid ord pd t1 t1'))\<lparr>paidAt := Some t2\<rparr>\<rparr>"
  by (cases "upd_mpesaReceiptNumber pd"; cases "upd_transactionId pd";
      cases "upd_phoneNumber pd")
     (simp_all add: markAsPaid_def Let_def updateStatus_def spread_def)

text \<open>
  Claim C2, as amended. A second \<open>markAsPaid\<close> with the same receipt data leaves every
  path that the order schema declares as the first call left it but for \<open>paidAt\<close>, which
  it sets to the time of the second call: the status history and its length, the order
  status and every other declared path are unchanged and \<open>paymentStatus\<close> stays \<open>paid\<close>.
  The statement is about the declared paths, which are the fields of the record \<open>Order\<close>;
  the timestamps that the schema option \<^verbatim>\<open>timestamps\<close> maintains on a save are outside it.
  The method has no guard on \<open>paymentStatus\<close>; the history is not appended to again
  because the first call has left the order status other than \<open>pending\<close>.
\<close>

theorem markAsPaid_repeat:
  "markAsPaid (markAsPaid ord pd t1 t1') pd t2 t2' =
     (markAsPaid ord pd t1 t1')
       \<lparr>paymentDetails := (paymentDetails (markAsPaid ord pd t1 t1'))\<lparr>paidAt := Some t2\<rparr>\<rparr>
   \<and> statusHistory (markAsPaid (markAsPaid ord pd t1 t1') pd t2 t2') =
       statusHistory (markAsPaid ord pd t1 t1')
   \<and> paymentStatus (markAsPaid (markAsPaid ord pd t1 t1') pd t2 t2') = paid
   \<and> orderStatus (markAsPaid (markAsPaid ord pd t1 t1') pd t2 t2') =
       orderStatus (markAsPaid ord pd t1 t1')
   \<and> paidAt (paymentDetails (markAsPaid (markAsPaid ord pd t1 t1') pd t2 t2')) = Some t2"
proof -
  define once where "once = markAsPaid ord pd t1 t1'"
  have paid1: "paymentStatus once = paid"
    by (simp add: once_def markAsPaid_def Let_def updateStatus_def)
  have twice: "markAsPaid once pd t2 t2' =
      once\<lparr>paymentDetails := (paymentDetails once)\<lparr>paidAt := Some t2\<rparr>\<rparr>"
    unfolding once_def by (rule markAsPaid_twice)
  have "markAsPaid once pd t2 t2' =
      once\<lparr>paymentDetails := (paymentDetails once)\<lparr>paidAt := Some t2\<rparr>\<rparr>
   \<and> statusHistory (markAsPaid once pd t2 t2') = statusHistory once
   \<and> paymentStatus (markAsPaid once pd t2 t2') = paid
   \<and> orderStatus (markAsPaid once pd t2 t2') = orderStatus once
   \<and> paidAt (paymentDetails (markAsPaid once pd t2 t2')) = Some t2"
    unfolding twice using paid1 by simp
  then show ?thesis unfolding once_def .
qed

text \<open>
  Claim C2 as stated fails: the repeat call is not a no-op. Paid at time 200 and marked
  again with the same receipt at time 300, the order has its \<open>paidAt\<close> moved to 300.
\<close>

theorem markAsPaid_paidAt_counterexample:
  "paidAt (paymentDetails (markAsPaid order1 receipt0 200 201)) = Some 200
   \<and> paidAt (paymentDetails (markAsPaid (markAsPaid order1 receipt0 200 201) receipt0 300 301))
       = Some 300
   \<and> markAsPaid (markAsPaid order1 receipt0 200 201) receipt0 300 301
       \<noteq> markAsPaid order1 receipt0 200 201"
proof -
  have a: "paidAt (paymentDetails (markAsPaid order1 receipt0 200 201)) = Some 200"
    by (simp add: markAsPaid_def Let_def updateStatus_def)
  have b: "paidAt (paymentDetails (markAsPaid (markAsPaid order1 receipt0 200 201)
      receipt0 300 301)) = Some 300"
    by (simp add: markAsPaid_def Let_def updateStatus_def)
  have c: "markAsPaid (markAsPaid order1 receipt0 200 201) receipt0 300 301
       \<noteq> markAsPaid order1 receipt0 200 201"
  proof
    assume "markAsPaid (markAsPaid order1 receipt0 200 201) receipt0 300 301
       = markAsPaid order1 receipt0 200 201"
    then have "Some (300::nat) = Some 200" using a b by simp
    then show False by simp
  qed
  from a b c show ?thesis by (intro conjI)
qed

section \<open>Status updates\<close>

text \<open>
  Claim C3, as amended. \<open>updateStatus\<close> checks no transition: for every order and every
  requested status, \<open>cancelled\<close> included and from any status, \<open>cancelled\<close> included, it
  sets the order status to the requested one and appends one history entry for it. The
  controller \<open>updateOrderStatus\<close> answers 200 for every order it finds and every status
  it is given, and stores the updated order; it rejects only a request without a status
  and an order that is not found.
\<close>

theorem updateStatus_unguarded:
  "orderStatus (updateStatus ord st n u t) = st
   \<and> statusHistory (updateStatus ord st n u t) =
       statusHistory ord @
         [\<lparr>status = st, timestamp = t,
           noteText = Some (orElse n (''Status changed to '' @ statusName st)),
           updatedBy = u\<rparr>]
   \<and> (findById (sr_id req) (orders db) = Some ord \<and> sr_status req = Some st \<longrightarrow>
        fst (updateOrderStatus req t db) =
          Json 200 (OrderData ''Order status updated''
            (updateStatus ord st (sr_note req) (Some (sr_user req)) t))
        \<and> findById (sr_id req) (orders (snd (updateOrderStatus req t db))) =
            Some (updateStatus ord st (sr_note req) (Some (sr_user req)) t))"
proof -
  have "findById (sr_id req) (orders (snd (updateOrderStatus req t db))) =
            Some (updateStatus ord st (sr_note req) (Some (sr_user req)) t)"
    if f: "findById (sr_id req) (orders db) = Some ord" and s: "sr_status req = Some st"
  proof -
    have "oid (updateStatus ord st (sr_note req) (Some (sr_user req)) t) = sr_id req"
      using findById_Some [OF f] by (simp add: updateStatus_def)
    from findById_saveOrder [OF f this] show ?thesis
      using f s by (simp add: updateOrderStatus_def Let_def)
  qed
  then show ?thesis
    by (simp add: updateStatus_def updateOrderStatus_def Let_def)
qed

text \<open>
  An administrator sets the pending sample order to \<open>cancelled\<close> through the status route.
\<close>

theorem updateStatus_unguarded_witness:
  "fst (updateOrderStatus statusReq 300 db0) =
     Json 200 (OrderData ''Order status updated''
       (updateStatus order0 cancelled None (Some ''admin1'') 300))
   \<and> findById ''o1'' (orders (snd (updateOrderStatus statusReq 300 db0))) =
       Some (updateStatus order0 cancelled None (Some ''admin1'') 300)
   \<and> orderStatus (updateStatus order0 cancelled None (Some ''admin1'') 300) = cancelled"
proof -
  have h: "findById (sr_id statusReq) (orders db0) = Some order0
      \<and> sr_status statusReq = Some cancelled"
    by (simp add: findById_def statusReq_def db0_def order0_def)
  have a: "fst (updateOrderStatus statusReq 300 db0) =
          Json 200 (OrderData ''Order status updated''
            (updateStatus order0 cancelled (sr_note statusReq) (Some (sr_user statusReq)) 300))
        \<and> findById (sr_id statusReq) (orders (snd (updateOrderStatus statusReq 300 db0))) =
            Some (updateStatus order0 cancelled (sr_note statusReq) (Some (sr_user statusReq)) 300)"
    using updateStatus_unguarded [of order0 cancelled None None 300 statusReq db0,
        THEN conjunct2, THEN conjunct2, THEN mp, OF h] .
  have b: "orderStatus (updateStatus order0 cancelled None (Some ''admin1'') 300) = cancelled"
    using updateStatus_unguarded [of order0 cancelled None "Some ''admin1''" 300,
        THEN conjunct1] .
  have c: "sr_note statusReq = None" "sr_user statusReq = ''admin1''" "sr_id statusReq = ''o1''"
    by (simp_all add: statusReq_def)
  from a b show ?thesis unfolding c by (intro conjI) (elim conjE | assumption)+
qed

text \<open>
  Claim C3 as stated fails: a cancelled order is moved to \<open>shipped\<close>, and a pending order
  is moved to \<open>cancelled\<close>, by \<open>updateStatus\<close> and through its controller.
\<close>

theorem updateStatus_cancelled_counterexample:
  "orderStatus (updateStatus (order0\<lparr>orderStatus := cancelled\<rparr>) shipped None None 300) = shipped
   \<and> orderStatus order0 = pending
   \<and> orderStatus (updateStatus order0 cancelled None None 300) = cancelled
   \<and> fst (updateOrderStatus statusReq 300 db0) =
       Json 200 (OrderData ''Order status updated''
         (updateStatus order0 cancelled None (Some ''admin1'') 300))"
  by (simp add: updateStatus_def updateOrderStatus_def Let_def statusReq_def db0_def
      findById_def order0_def)

section \<open>Cancellation\<close>

lemma canBeCancelled_iff:
  "canBeCancelled ord = (orderStatus ord = pending \<or> orderStatus ord = confirmed)"
  by (auto simp: canBeCancelled_def)

lemma cancelOrder_blocked:
  assumes "findById (cr_id req) (orders db) = Some ord"
    and "user ord = cr_user req \<or> cr_role req = ''admin''"
    and "orderStatus ord \<noteq> pending \<and> orderStatus ord \<noteq> confirmed"
  shows "cancelOrder req now db =
    (Next (ErrorResponse ''Order cannot be cancelled at this stage'' 400), db)"
proof -
  have "\<not> canBeCancelled ord" using assms(3) by (simp add: canBeCancelled_iff)
  then show ?thesis
    using assms(1,2) by (auto simp: cancelOrder_def Order_cancelOrder_def)
qed

text \<open>
  Claim C6. For every stored order that the requester may cancel (its owner, or an
  administrator): unless the order status is \<open>pending\<close> or \<open>confirmed\<close>, \<open>cancelOrder\<close>
  fails with the blocking-state error and leaves the database, the stock with it, as it
  was; otherwise it answers 200, the stored order has the status \<open>cancelled\<close>, the cancel
  reason and one more history entry, and the stock of every product has grown by the
  quantities of the order's items for that product and by nothing else. A second cancel
  then fails and changes nothing, so the stock is given back once.
\<close>

theorem cancelOrder_contract:
  assumes found: "findById (cr_id req) (orders db) = Some ord"
    and allowed: "user ord = cr_user req \<or> cr_role req = ''admin''"
  shows "(orderStatus ord \<noteq> pending \<and> orderStatus ord \<noteq> confirmed \<longrightarrow>
            cancelOrder req now db =
              (Next (ErrorResponse ''Order cannot be cancelled at this stage'' 400), db))
       \<and> ((orderStatus ord = pending \<or> orderStatus ord = confirmed) \<longrightarrow>
            (let reason = orElse (cr_reason req) ''Cancelled by customer'';
                 ord' = ord\<lparr>orderStatus := cancelled,
                           cancelReason := Some reason,
                           statusHistory := statusHistory ord @
                             [\<lparr>status = cancelled, timestamp = now, noteText = Some reason,
                               updatedBy = Some (cr_user req)\<rparr>]\<rparr>;
                 db' = snd (cancelOrder req now db)
             in fst (cancelOrder req now db) =
                  Json 200 (OrderData ''Order cancelled successfully'' ord')
                \<and> findById (cr_id req) (orders db') = Some ord'
                \<and> (\<forall>i. products db' i =
                      map_option
                        (\<lambda>p. p\<lparr>stock := stock p +
                           (\<Sum>item\<leftarrow>filter (\<lambda>it. product it = i) (items ord). quantity item)\<rparr>)
                        (products db i))
                \<and> cancelOrder req later db' =
                    (Next (ErrorResponse ''Order cannot be cancelled at this stage'' 400), db')))"
proof (intro conjI impI)
  assume "orderStatus ord \<noteq> pending \<and> orderStatus ord \<noteq> confirmed"
  from cancelOrder_blocked [OF found allowed this]
  show "cancelOrder req now db =
      (Next (ErrorResponse ''Order cannot be cancelled at this stage'' 400), db)" .
next
  assume "orderStatus ord = pending \<or> orderStatus ord = confirmed"
  then have can: "canBeCancelled ord" by (simp add: canBeCancelled_iff)
  define reason where "reason = orElse (cr_reason req) ''Cancelled by customer''"
  define ord' where "ord' = ord\<lparr>orderStatus := cancelled,
                           cancelReason := Some reason,
                           statusHistory := statusHistory ord @
                             [\<lparr>status = cancelled, timestamp = now, noteText = Some reason,
                               updatedBy = Some (cr_user req)\<rparr>]\<rparr>"
  define db' where "db' = db\<lparr>orders := saveOrder ord' (orders db),
          products := restoreStock (items ord') (products db)\<rparr>"
  have m: "Order_cancelOrder ord (Some reason) (Some (cr_user req)) now = Inr ord'"
    using can by (simp add: Order_cancelOrder_def ord'_def)
  have res: "cancelOrder req now db =
      (Json 200 (OrderData ''Order cancelled successfully'' ord'), db')"
    using found allowed m by (auto simp: cancelOrder_def reason_def db'_def)
  have id: "oid ord' = cr_id req"
    using findById_Some [OF found] by (simp add: ord'_def)
  have its: "items ord' = items ord" by (simp add: ord'_def)
  have found': "findById (cr_id req) (orders db') = Some ord'"
    using findById_saveOrder [OF found id] by (simp add: db'_def)
  have allowed': "user ord' = cr_user req \<or> cr_role req = ''admin''"
    using allowed by (simp add: ord'_def)
  have st': "orderStatus ord' \<noteq> pending \<and> orderStatus ord' \<noteq> confirmed"
    by (simp add: ord'_def)
  have stock': "products db' i =
      map_option
        (\<lambda>p. p\<lparr>stock := stock p +
           (\<Sum>item\<leftarrow>filter (\<lambda>it. product it = i) (items ord). quantity item)\<rparr>)
        (products db i)" for i
    by (simp add: db'_def its restoreStock_lookup)
  show "let reason = orElse (cr_reason req) ''Cancelled by customer'';
                 ord' = ord\<lparr>orderStatus := cancelled,
                           cancelReason := Some reason,
                           statusHistory := statusHistory ord @
                             [\<lparr>status = cancelled, timestamp = now, noteText = Some reason,
                               updatedBy = Some (cr_user req)\<rparr>]\<rparr>;
                 db' = snd (cancelOrder req now db)
             in fst (cancelOrder req now db) =
                  Json 200 (OrderData ''Order cancelled successfully'' ord')
                \<and> findById (cr_id req) (orders db') = Some ord'
                \<and> (\<forall>i. products db' i =
                      map_option
                        (\<lambda>p. p\<lparr>stock := stock p +
                           (\<Sum>item\<leftarrow>filter (\<lambda>it. product it = i) (items ord). quantity item)\<rparr>)
                        (products db i))
                \<and> cancelOrder req later db' =
                    (Next (ErrorResponse ''Order cannot be cancelled at this stage'' 400), db')"
    unfolding Let_def reason_def[symmetric] ord'_def[symmetric] res snd_conv fst_conv
    using found' stock' cancelOrder_blocked [OF found' allowed' st'] by blast
qed

text \<open>
  Cancelling the pending sample order, of one chair and three desks, takes the chairs from
  3 to 4 and the desks from 2 to 5; the same order in the status \<open>shipped\<close> is refused
  and the database is as before.
\<close>

theorem cancelOrder_contract_witness:
  "fst (cancelOrder cancelReq 300 db0) =
     Json 200 (OrderData ''Order cancelled successfully''
       (order0\<lparr>orderStatus := cancelled, cancelReason := Some ''Cancelled by customer'',
               statusHistory := statusHistory order0 @
                 [\<lparr>status = cancelled, timestamp = 300,
                   noteText = Some ''Cancelled by customer'', updatedBy = Some ''u1''\<rparr>]\<rparr>))
   \<and> map_option stock (products db0 ''p1'') = Some 3
   \<and> map_option stock (products (snd (cancelOrder cancelReq 300 db0)) ''p1'') = Some 4
   \<and> map_option stock (products db0 ''p2'') = Some 2
   \<and> map_option stock (products (snd (cancelOrder cancelReq 300 db0)) ''p2'') = Some 5
   \<and> cancelOrder cancelReq 300 (db0\<lparr>orders := [order0\<lparr>orderStatus := shipped\<rparr>]\<rparr>) =
       (Next (ErrorResponse ''Order cannot be cancelled at this stage'' 400),
        db0\<lparr>orders := [order0\<lparr>orderStatus := shipped\<rparr>]\<rparr>)"
proof -
  have found: "findById (cr_id cancelReq) (orders db0) = Some order0"
    by (simp add: findById_def cancelReq_def db0_def order0_def)
  have allowed: "user order0 = cr_user cancelReq \<or> cr_role cancelReq = ''admin''"
    by (simp add: cancelReq_def order0_def)
  have st: "orderStatus order0 = pending \<or> orderStatus order0 = confirmed"
    by (simp add: order0_def)
  note ok = cancelOrder_contract [OF found allowed, of 300 300, THEN conjunct2, THEN mp, OF st,
      unfolded Let_def]
  have rq: "orElse (cr_reason cancelReq) ''Cancelled by customer'' = ''Cancelled by customer''"
      "cr_user cancelReq = ''u1''"
    by (simp_all add: cancelReq_def orElse_def)
  have a: "fst (cancelOrder cancelReq 300 db0) =
     Json 200 (OrderData ''Order cancelled successfully''
       (order0\<lparr>orderStatus := cancelled, cancelReason := Some ''Cancelled by customer'',
               statusHistory := statusHistory order0 @
                 [\<lparr>status = cancelled, timestamp = 300,
                   noteText = Some ''Cancelled by customer'', updatedBy = Some ''u1''\<rparr>]\<rparr>))"
    using ok [THEN conjunct1] unfolding rq .
  have before: "map_option stock (products db0 ''p1'') = Some 3"
      "map_option stock (products db0 ''p2'') = Some 2"
    by (simp_all add: db0_def catalog_def chair_def desk_def)
  have p1: "map_option stock (products (snd (cancelOrder cancelReq 300 db0)) ''p1'') = Some 4"
    unfolding ok [THEN conjunct2, THEN conjunct2, THEN conjunct1, THEN spec, of "''p1''"]
    by (simp add: db0_def catalog_def chair_def order0_def)
  have p2: "map_option stock (products (snd (cancelOrder cancelReq 300 db0)) ''p2'') = Some 5"
    unfolding ok [THEN conjunct2, THEN conjunct2, THEN conjunct1, THEN spec, of "''p2''"]
    by (simp add: db0_def catalog_def desk_def order0_def)
  have found2: "findById (cr_id cancelReq)
      (orders (db0\<lparr>orders := [order0\<lparr>orderStatus := shipped\<rparr>]\<rparr>)) =
      Some (order0\<lparr>orderStatus := shipped\<rparr>)"
    by (simp add: findById_def cancelReq_def order0_def)
  have allowed2: "user (order0\<lparr>orderStatus := shipped\<rparr>) = cr_user cancelReq
      \<or> cr_role cancelReq = ''admin''"
    by (simp add: cancelReq_def order0_def)
  have st2: "orderStatus (order0\<lparr>orderStatus := shipped\<rparr>) \<noteq> pending
      \<and> orderStatus (order0\<lparr>orderStatus := shipped\<rparr>) \<noteq> confirmed"
    by simp
  have b: "cancelOrder cancelReq 300 (db0\<lparr>orders := [order0\<lparr>orderStatus := shipped\<rparr>]\<rparr>) =
       (Next (ErrorResponse ''Order cannot be cancelled at this stage'' 400),
        db0\<lparr>orders := [order0\<lparr>orderStatus := shipped\<rparr>]\<rparr>)"
    using cancelOrder_contract [OF found2 allowed2, of 300 300, THEN conjunct1, THEN mp, OF st2] .
  from a before p1 p2 b show ?thesis by (intro conjI)
qed

section \<open>The payment callback\<close>

lemma processCallback_checkoutId:
  "processCallback (Some cd) = Inr result \<Longrightarrow> Body cd = Some b \<Longrightarrow> stkCallback b = Some cb \<Longrightarrow>
   res_checkoutRequestId result = cb_CheckoutRequestID cb"
  by (auto simp: processCallback_def Let_def split: option.splits if_splits)

lemma findByTransactionId_None:
  "\<forall>x\<in>set os. transactionId (paymentDetails x) \<noteq> t \<Longrightarrow> findByTransactionId t os = None"
  by (auto simp: findByTransactionId_def find_None_iff)

lemma mpesaCallback_fst:
  "fst (mpesaCallback reqBody faults now now' db) = accepted"
  by (simp add: mpesaCallback_def Let_def split: sum.splits option.splits)

lemma mpesaCallback_products:
  "products (snd (mpesaCallback reqBody faults now now' db)) = products db"
  by (simp add: mpesaCallback_def Let_def split: sum.splits option.splits)

lemma mpesaCallback_no_match:
  assumes "reqBody = Some cd" "Body cd = Some b" "stkCallback b = Some cb"
    and "\<forall>x\<in>set (orders db). transactionId (paymentDetails x) \<noteq> cb_CheckoutRequestID cb"
  shows "snd (mpesaCallback reqBody faults now now' db) = db"
proof (cases "processCallback reqBody")
  case (Inl e)
  then show ?thesis by (simp add: mpesaCallback_def)
next
  case (Inr result)
  with assms(1-3) have "res_checkoutRequestId result = cb_CheckoutRequestID cb"
    using processCallback_checkoutId by blast
  with assms(4) have "findByTransactionId (res_checkoutRequestId result) (orders db) = None"
    using findByTransactionId_None by simp
  with Inr show ?thesis by (simp add: mpesaCallback_def)
qed

lemma mpesaCallback_internal_error:
  "(\<exists>e. processCallback reqBody = Inl e) \<or> findFails faults \<or> saveFails faults \<Longrightarrow>
   snd (mpesaCallback reqBody faults now now' db) = db"
  by (auto simp: mpesaCallback_def Let_def split: sum.splits option.splits)

text \<open>
  Claim C7. For every callback request, every database and every internal failure
  (a body that \<open>processCallback\<close> cannot read, a query or a save that the database
  rejects), \<open>mpesaCallback\<close> answers 200 with \<open>ResultCode\<close> 0 and \<open>ResultDesc\<close>
  \<open>Accepted\<close>, and it never touches the products. When no stored order has the
  callback's \<open>CheckoutRequestID\<close> as its transaction id, the database is left as it was;
  so it is after an internal failure.
\<close>

theorem mpesaCallback_always_accepted:
  "fst (mpesaCallback reqBody faults now now' db) = Json 200 (Ack 0 ''Accepted'')
   \<and> products (snd (mpesaCallback reqBody faults now now' db)) = products db
   \<and> (reqBody = Some cd \<and> Body cd = Some b \<and> stkCallback b = Some cb
        \<and> (\<forall>x\<in>set (orders db). transactionId (paymentDetails x) \<noteq> cb_CheckoutRequestID cb)
      \<longrightarrow> snd (mpesaCallback reqBody faults now now' db) = db)
   \<and> ((\<exists>e. processCallback reqBody = Inl e) \<or> findFails faults \<or> saveFails faults
      \<longrightarrow> snd (mpesaCallback reqBody faults now now' db) = db)"
  using mpesaCallback_fst [of reqBody faults now now' db]
    mpesaCallback_products [of reqBody faults now now' db]
    mpesaCallback_no_match [of reqBody cd b cb db faults now now']
    mpesaCallback_internal_error [of reqBody faults now now' db]
  unfolding accepted_def by blast

text \<open>
  Three callbacks against the database that holds the order with transaction id
  \<open>ws_CO_1\<close>: one for the unknown id \<open>ws_CO_404\<close>, a request without a body, and a
  success for \<open>ws_CO_1\<close> that lacks its metadata. Each is acknowledged and none changes
  the database.
\<close>

theorem mpesaCallback_always_accepted_witness:
  "fst (mpesaCallback (callbackFor ''ws_CO_404'' (JNum 0) (Some receiptItems)) noFaults 200 201 db1)
     = Json 200 (Ack 0 ''Accepted'')
   \<and> snd (mpesaCallback (callbackFor ''ws_CO_404'' (JNum 0) (Some receiptItems)) noFaults 200 201 db1)
     = db1
   \<and> fst (mpesaCallback None noFaults 200 201 db1) = Json 200 (Ack 0 ''Accepted'')
   \<and> snd (mpesaCallback None noFaults 200 201 db1) = db1
   \<and> fst (mpesaCallback (callbackFor ''ws_CO_1'' (JNum 0) None) noFaults 200 201 db1)
     = Json 200 (Ack 0 ''Accepted'')
   \<and> snd (mpesaCallback (callbackFor ''ws_CO_1'' (JNum 0) None) noFaults 200 201 db1) = db1"
proof -
  define cb where "cb =
    \<lparr>cb_MerchantRequestID = Some ''m-1'', cb_CheckoutRequestID = Some ''ws_CO_404'',
     ResultCode = JNum 0, ResultDesc = Some ''The service request is processed'',
     CallbackMetadata = Some receiptItems\<rparr>"
  define b where "b = \<lparr>stkCallback = Some cb\<rparr>"
  define cd where "cd = \<lparr>Body = Some b\<rparr>"
  have unmatched: "callbackFor ''ws_CO_404'' (JNum 0) (Some receiptItems) = Some cd
      \<and> Body cd = Some b \<and> stkCallback b = Some cb
      \<and> (\<forall>x\<in>set (orders db1). transactionId (paymentDetails x) \<noteq> cb_CheckoutRequestID cb)"
    by (simp add: callbackFor_def cd_def b_def cb_def db1_def order1_def)
  have noBody: "(\<exists>e. processCallback None = Inl e) \<or> findFails noFaults \<or> saveFails noFaults"
    by (simp add: processCallback_def)
  have noMeta: "(\<exists>e. processCallback (callbackFor ''ws_CO_1'' (JNum 0) None) = Inl e)
      \<or> findFails noFaults \<or> saveFails noFaults"
    by (simp add: processCallback_def callbackFor_def Let_def)
  note t1 = mpesaCallback_always_accepted
    [of "callbackFor ''ws_CO_404'' (JNum 0) (Some receiptItems)" noFaults 200 201 db1 cd b cb]
  note t2 = mpesaCallback_always_accepted [of None noFaults 200 201 db1]
  note t3 = mpesaCallback_always_accepted
    [of "callbackFor ''ws_CO_1'' (JNum 0) None" noFaults 200 201 db1]
  show ?thesis
    using t1 [THEN conjunct1]
      t1 [THEN conjunct2, THEN conjunct2, THEN conjunct1, THEN mp, OF unmatched]
      t2 [THEN conjunct1]
      t2 [THEN conjunct2, THEN conjunct2, THEN conjunct2, THEN mp, OF noBody]
      t3 [THEN conjunct1]
      t3 [THEN conjunct2, THEN conjunct2, THEN conjunct2, THEN mp, OF noMeta]
    by (intro conjI)
qed

section \<open>Failures of the push request\<close>

lemma stkAttempt_push:
  assumes "phoneIn \<noteq> []" "1 \<le> amount" "accountReference \<noteq> []"
    and "oauth gw = Inr accessToken"
    and "formatPhoneNumber phoneIn = Inr formattedPhone"
  shows "stkAttempt gw phoneIn amount accountReference transactionDesc =
     (case stkPush gw accessToken
             \<lparr>Amount = amount, PartyA = formattedPhone, PhoneNumber = formattedPhone,
              AccountReference = accountReference,
              TransactionDesc = orElse transactionDesc ''Payment for furniture order''\<rparr> of
        Inl e \<Rightarrow> Inl e
      | Inr d \<Rightarrow>
          if ResponseCode d = Some ''0''
          then Inr \<lparr>stk_message = ''STK Push sent successfully'',
                    checkoutRequestId = CheckoutRequestID d,
                    merchantRequestId = MerchantRequestID d,
                    customerMessage = CustomerMessage d\<rparr>
          else Inl (Error (orElse (ResponseDescription d) ''STK Push failed'')))"
  using assms by (simp add: stkAttempt_def generateAccessToken_def)

text \<open>
  Claim C5, as amended. \<open>initiateSTKPush\<close> does not classify the failures of the push
  request by status. With valid inputs and the bearer token obtained, a business failure
  that the gateway reports (a response code other than \<open>0\<close>) surfaces as an
  \<open>ErrorResponse\<close> of status 400 whose message is \<open>M-Pesa payment failed: \<close> followed
  by the gateway's \<open>ResponseDescription\<close> (or \<open>STK Push failed\<close> when there is none);
  a transport failure or timeout of the push request surfaces as an \<open>ErrorResponse\<close> of
  the same status 400, whose message carries the transport error's message, or the
  gateway's \<open>errorMessage\<close> or \<open>ResponseDescription\<close> when the failed request had an
  answer. The two differ in the text of the message only.
\<close>

theorem initiateSTKPush_failures:
  assumes "phoneIn \<noteq> []" "1 \<le> amount" "accountReference \<noteq> []"
    and "oauth gw = Inr accessToken"
    and "formatPhoneNumber phoneIn = Inr formattedPhone"
    and "payload = \<lparr>Amount = amount, PartyA = formattedPhone, PhoneNumber = formattedPhone,
              AccountReference = accountReference,
              TransactionDesc = orElse transactionDesc ''Payment for furniture order''\<rparr>"
  shows "(\<forall>d. stkPush gw accessToken payload = Inr d \<and> ResponseCode d \<noteq> Some ''0'' \<longrightarrow>
            initiateSTKPush gw phoneIn amount accountReference transactionDesc =
              Inl (ErrorResponse (''M-Pesa payment failed: '' @
                     orElse (ResponseDescription d) ''STK Push failed'') 400))
       \<and> (\<forall>m. stkPush gw accessToken payload = Inl (AxiosError m None) \<longrightarrow>
            initiateSTKPush gw phoneIn amount accountReference transactionDesc =
              Inl (ErrorResponse (''M-Pesa payment failed: '' @ m) 400))
       \<and> (\<forall>m d. stkPush gw accessToken payload = Inl (AxiosError m (Some d)) \<longrightarrow>
            initiateSTKPush gw phoneIn amount accountReference transactionDesc =
              Inl (ErrorResponse (''M-Pesa payment failed: '' @
                     orElse (errorMessage d) (orElse (ResponseDescription d) m)) 400))"
  unfolding initiateSTKPush_def stkAttempt_push [OF assms(1-5)] assms(6)[symmetric]
  by (auto simp: stkErrorMessage_def)

text \<open>
  A push request that times out and one that the gateway declines: both are status 400,
  the first with the transport error's message, the second with the gateway's.
\<close>

theorem initiateSTKPush_failures_witness:
  "initiateSTKPush gwTimesOut ''0712345678'' 35800 ''ORD-20240105-0001'' None =
     Inl (ErrorResponse ''M-Pesa payment failed: timeout of 30000ms exceeded'' 400)
   \<and> initiateSTKPush gwDeclines ''0712345678'' 35800 ''ORD-20240105-0001'' None =
     Inl (ErrorResponse ''M-Pesa payment failed: Unable to lock subscriber'' 400)"
proof -
  define payload where "payload =
    \<lparr>Amount = 35800, PartyA = ''254712345678'', PhoneNumber = ''254712345678'',
     AccountReference = ''ORD-20240105-0001'',
     TransactionDesc = orElse None ''Payment for furniture order''\<rparr>"
  have valid: "''0712345678'' \<noteq> []" "(1::int) \<le> 35800" "''ORD-20240105-0001'' \<noteq> []"
    by simp_all
  have tok: "oauth gwTimesOut = Inr (Some ''token'')" "oauth gwDeclines = Inr (Some ''token'')"
    by (simp_all add: gwTimesOut_def gwDeclines_def)
  have ph: "formatPhoneNumber ''0712345678'' = Inr ''254712345678''"
    by (simp add: phone_eval)
  have timeout: "stkPush gwTimesOut (Some ''token'') payload =
      Inl (AxiosError ''timeout of 30000ms exceeded'' None)"
    by (simp add: gwTimesOut_def)
  have declined: "stkPush gwDeclines (Some ''token'') payload = Inr declinedPush
      \<and> ResponseCode declinedPush \<noteq> Some ''0''"
    by (simp add: gwDeclines_def declinedPush_def)
  have a: "initiateSTKPush gwTimesOut ''0712345678'' 35800 ''ORD-20240105-0001'' None =
     Inl (ErrorResponse (''M-Pesa payment failed: '' @ ''timeout of 30000ms exceeded'') 400)"
    using initiateSTKPush_failures [OF valid tok(1) ph payload_def, THEN conjunct2,
        THEN conjunct1, THEN spec, THEN mp, OF timeout] .
  have b: "initiateSTKPush gwDeclines ''0712345678'' 35800 ''ORD-20240105-0001'' None =
     Inl (ErrorResponse (''M-Pesa payment failed: '' @
        orElse (ResponseDescription declinedPush) ''STK Push failed'') 400)"
    using initiateSTKPush_failures [OF valid tok(2) ph payload_def, THEN conjunct1,
        THEN spec, THEN mp, OF declined] .
  from a b show ?thesis by (simp add: declinedPush_def orElse_def)
qed

text \<open>
  Claim C5 as stated fails: the push request times out without an answer, a transport
  failure, and the error that surfaces has status 400, not a status of 500 or above.
\<close>

theorem initiateSTKPush_status_counterexample:
  "stkPush gwTimesOut (Some ''token'')
     \<lparr>Amount = 35800, PartyA = ''254712345678'', PhoneNumber = ''254712345678'',
      AccountReference = ''ORD-20240105-0001'',
      TransactionDesc = ''Payment for furniture order''\<rparr> =
     Inl (AxiosError ''timeout of 30000ms exceeded'' None)
   \<and> initiateSTKPush gwTimesOut ''0712345678'' 35800 ''ORD-20240105-0001'' None =
     Inl (ErrorResponse ''M-Pesa payment failed: timeout of 30000ms exceeded'' 400)
   \<and> (400::nat) < 500"
  by (simp add: initiateSTKPush_def stkAttempt_def generateAccessToken_def gwTimesOut_def
      phone_eval stkErrorMessage_def orElse_def)

section \<open>Initiating a payment again\<close>

text \<open>
  Claim C4, as amended. \<open>initiatePayment\<close> does not look for an outstanding attempt. For
  every stored order of the requester that is not paid, whatever its
  \<open>transactionId\<close>, a request whose amount is within 1 of the order total and whose push
  the gateway accepts is answered 200, and the stored order then has the new checkout
  request id as its \<open>transactionId\<close> and the request's phone as its \<open>phoneNumber\<close>: the
  earlier id is overwritten and kept nowhere.
\<close>

theorem initiatePayment_reinitiates:
  assumes "pr_phone req \<noteq> []" "pr_amount req \<noteq> 0" "pr_orderId req \<noteq> []"
    and found: "findById (pr_orderId req) (orders db) = Some ord"
    and "user ord = pr_user req"
    and "paymentStatus ord \<noteq> paid"
    and "\<bar>pr_amount req - orderTotal ord\<bar> \<le> 1"
    and push: "initiateSTKPush gw (pr_phone req) (pr_amount req) (orderNumber ord)
           (Some (''Payment for order '' @ orderNumber ord)) = Inr result"
  shows "fst (initiatePayment gw req db) =
           Json 200 (StkData (stk_message result) (checkoutRequestId result)
                      (merchantRequestId result))
       \<and> findById (pr_orderId req) (orders (snd (initiatePayment gw req db))) =
           Some (ord\<lparr>paymentDetails := (paymentDetails ord)
                    \<lparr>phoneNumber := Some (pr_phone req),
                     transactionId := checkoutRequestId result\<rparr>\<rparr>)"
proof -
  define ord' where "ord' = ord\<lparr>paymentDetails := (paymentDetails ord)
                    \<lparr>phoneNumber := Some (pr_phone req),
                     transactionId := checkoutRequestId result\<rparr>\<rparr>"
  have res: "initiatePayment gw req db =
      (Json 200 (StkData (stk_message result) (checkoutRequestId result)
                      (merchantRequestId result)),
       db\<lparr>orders := saveOrder ord' (orders db)\<rparr>)"
    using assms by (simp add: initiatePayment_def Let_def ord'_def)
  have "oid ord' = pr_orderId req"
    using findById_Some [OF found] by (simp add: ord'_def)
  from findById_saveOrder [OF found this] show ?thesis
    unfolding res ord'_def[symmetric] by simp
qed

text \<open>
  The sample order with the outstanding attempt \<open>ws_CO_1\<close>: a second initiation
  succeeds and the stored transaction id becomes \<open>ws_CO_2\<close>.
\<close>

theorem initiatePayment_reinitiates_witness:
  "fst (initiatePayment gwAccepts payReq db1) =
     Json 200 (StkData ''STK Push sent successfully'' (Some ''ws_CO_2'') (Some ''m-2''))
   \<and> findById ''o1'' (orders (snd (initiatePayment gwAccepts payReq db1))) =
       Some (order1\<lparr>paymentDetails := (paymentDetails order1)
               \<lparr>phoneNumber := Some ''0712345678'', transactionId := Some ''ws_CO_2''\<rparr>\<rparr>)
   \<and> transactionId (paymentDetails order1) = Some ''ws_CO_1''"
proof -
  define result where "result =
    \<lparr>stk_message = ''STK Push sent successfully'', checkoutRequestId = Some ''ws_CO_2'',
     merchantRequestId = Some ''m-2'',
     customerMessage = Some ''Success. Request accepted for processing''\<rparr>"
  have rq: "pr_phone payReq \<noteq> []" "pr_amount payReq \<noteq> 0" "pr_orderId payReq \<noteq> []"
    by (simp_all add: payReq_def)
  have found: "findById (pr_orderId payReq) (orders db1) = Some order1"
    by (simp add: findById_def payReq_def db1_def order1_def order0_def)
  have own: "user order1 = pr_user payReq"
    by (simp add: payReq_def order1_def order0_def)
  have unpaid: "paymentStatus order1 \<noteq> paid"
    by (simp add: order1_def order0_def)
  have amt: "\<bar>pr_amount payReq - orderTotal order1\<bar> \<le> 1"
    by (simp add: payReq_def order1_def order0_def)
  have push: "initiateSTKPush gwAccepts (pr_phone payReq) (pr_amount payReq) (orderNumber order1)
           (Some (''Payment for order '' @ orderNumber order1)) = Inr result"
    by (simp add: initiateSTKPush_def stkAttempt_def generateAccessToken_def gwAccepts_def
        acceptedPush_def phone_eval payReq_def result_def order1_def order0_def)
  have vals: "stk_message result = ''STK Push sent successfully''"
      "checkoutRequestId result = Some ''ws_CO_2''" "merchantRequestId result = Some ''m-2''"
      "pr_orderId payReq = ''o1''" "pr_phone payReq = ''0712345678''"
    by (simp_all add: result_def payReq_def)
  have old: "transactionId (paymentDetails order1) = Some ''ws_CO_1''"
    by (simp add: order1_def)
  from initiatePayment_reinitiates [OF rq found own unpaid amt push] old
  show ?thesis unfolding vals by (intro conjI) (elim conjE | assumption)+
qed

text \<open>
  Claim C4 as stated fails: the order has a transaction id and no outcome yet (its
  payment status is \<open>pending\<close>), and the second push is started, not rejected.
\<close>

theorem initiatePayment_outstanding_counterexample:
  "transactionId (paymentDetails order1) = Some ''ws_CO_1''
   \<and> paymentStatus order1 = payment_pending
   \<and> fst (initiatePayment gwAccepts payReq db1) =
       Json 200 (StkData ''STK Push sent successfully'' (Some ''ws_CO_2'') (Some ''m-2''))
   \<and> map (\<lambda>x. transactionId (paymentDetails x)) (orders (snd (initiatePayment gwAccepts payReq db1)))
       = [Some ''ws_CO_2'']"
  by (simp add: initiatePayment_def initiateSTKPush_def stkAttempt_def generateAccessToken_def
      gwAccepts_def acceptedPush_def phone_eval payReq_def db1_def order1_def order0_def
      findById_def)

section \<open>Order totals\<close>

text \<open>
  No operation on a stored order changes its subtotal, its delivery fee or its total:
  neither the schema methods nor, in a collection whose ids are distinct, the controllers.
\<close>

lemma orderTotals_updateStatus: "orderTotals (updateStatus ord st n u t) = orderTotals ord"
  by (simp add: orderTotals_def updateStatus_def)

lemma orderTotals_markAsPaid: "orderTotals (markAsPaid ord pd t t') = orderTotals ord"
  by (simp add: orderTotals_def markAsPaid_def Let_def updateStatus_def)

lemma orderTotals_cancel:
  "Order_cancelOrder ord r u t = Inr ord' \<Longrightarrow> orderTotals ord' = orderTotals ord"
  by (auto simp: orderTotals_def Order_cancelOrder_def split: if_splits)

lemma oid_updateStatus: "oid (updateStatus ord st n u t) = oid ord"
  by (simp add: updateStatus_def)

lemma oid_markAsPaid: "oid (markAsPaid ord pd t t') = oid ord"
  by (simp add: markAsPaid_def Let_def updateStatus_def)

lemma oid_cancel: "Order_cancelOrder ord r u t = Inr ord' \<Longrightarrow> oid ord' = oid ord"
  by (auto simp: Order_cancelOrder_def split: if_splits)

lemma findByTransactionId_Some: "findByTransactionId t os = Some x \<Longrightarrow> x \<in> set os"
  by (auto simp: findByTransactionId_def find_Some_iff)

lemma totals_updateOrderStatus:
  assumes "distinct (map oid (orders db))"
  shows "map orderTotals (orders (snd (updateOrderStatus req t db))) = map orderTotals (orders db)"
proof (cases "sr_status req")
  case None
  then show ?thesis by (simp add: updateOrderStatus_def)
next
  case (Some st)
  show ?thesis
  proof (cases "findById (sr_id req) (orders db)")
    case None
    with Some show ?thesis by (simp add: updateOrderStatus_def)
  next
    case (Some ord)
    from findById_Some [OF this] have "ord \<in> set (orders db)" by simp
    from orderTotals_saveOrder [OF this assms oid_updateStatus orderTotals_updateStatus]
    show ?thesis using Some \<open>sr_status req = Some st\<close>
      by (simp add: updateOrderStatus_def Let_def)
  qed
qed

lemma totals_cancelOrder:
  assumes "distinct (map oid (orders db))"
  shows "map orderTotals (orders (snd (cancelOrder req t db))) = map orderTotals (orders db)"
proof (cases "findById (cr_id req) (orders db)")
  case None
  then show ?thesis by (simp add: cancelOrder_def)
next
  case (Some ord)
  from findById_Some [OF this] have mem: "ord \<in> set (orders db)" by simp
  show ?thesis
  proof (cases "Order_cancelOrder ord (Some (orElse (cr_reason req) ''Cancelled by customer''))
                    (Some (cr_user req)) t")
    case (Inl e)
    with Some show ?thesis by (simp add: cancelOrder_def)
  next
    case (Inr ord')
    from orderTotals_saveOrder [OF mem assms oid_cancel [OF Inr] orderTotals_cancel [OF Inr]]
    show ?thesis using Some Inr by (simp add: cancelOrder_def)
  qed
qed

lemma totals_initiatePayment:
  assumes "distinct (map oid (orders db))"
  shows "map orderTotals (orders (snd (initiatePayment gw req db))) = map orderTotals (orders db)"
proof (cases "findById (pr_orderId req) (orders db)")
  case None
  then show ?thesis by (simp add: initiatePayment_def)
next
  case (Some ord)
  from findById_Some [OF this] have mem: "ord \<in> set (orders db)" by simp
  have "map orderTotals (saveOrder (ord\<lparr>paymentDetails := d\<rparr>) (orders db)) =
      map orderTotals (orders db)" for d
    by (rule orderTotals_saveOrder [OF mem assms]) (simp_all add: orderTotals_def)
  then show ?thesis using Some
    by (simp add: initiatePayment_def Let_def split: sum.splits)
qed

lemma totals_mpesaCallback:
  assumes "distinct (map oid (orders db))"
  shows "map orderTotals (orders (snd (mpesaCallback body faults t t' db))) =
    map orderTotals (orders db)"
proof (cases "processCallback body")
  case (Inl e)
  then show ?thesis by (simp add: mpesaCallback_def)
next
  case (Inr result)
  show ?thesis
  proof (cases "findByTransactionId (res_checkoutRequestId result) (orders db)")
    case None
    with Inr show ?thesis by (simp add: mpesaCallback_def)
  next
    case (Some ord)
    from findByTransactionId_Some [OF this] have mem: "ord \<in> set (orders db)" .
    have a: "map orderTotals (saveOrder (markAsPaid ord pd t t') (orders db)) =
        map orderTotals (orders db)" for pd
      by (rule orderTotals_saveOrder [OF mem assms oid_markAsPaid orderTotals_markAsPaid])
    have b: "map orderTotals (saveOrder (ord\<lparr>paymentStatus := s\<rparr>) (orders db)) =
        map orderTotals (orders db)" for s
      by (rule orderTotals_saveOrder [OF mem assms]) (simp_all add: orderTotals_def)
    show ?thesis using Inr Some a b
      by (simp add: mpesaCallback_def Let_def)
  qed
qed

section \<open>Creating an order\<close>

text \<open>
  The subtotal that the loop hands on is the sum over the items of price times quantity.
  The document that \<open>createOrder\<close> then submits has no order number, so \<open>Order_create\<close>
  rejects it: \<open>createOrder\<close> answers with an error for every request and stores no order.
\<close>

lemma orderLoop_subtotal:
  "orderLoop its [] 0 ps = (Inr (oi, s), ps') \<Longrightarrow>
   (\<Sum>it\<leftarrow>oi. item_price it * quantity it) = s"
  using orderLoop_sum [of its "[]" 0 ps oi s ps'] by simp

lemma Order_create_unnumbered:
  "\<exists>m ps. Order_create env None u c its sub fee tot pm ns = Inl (ValidationError m ps)
     \<and> ''orderNumber'' \<in> set ps"
  by (cases fee; cases tot) (simp_all add: Order_create_def)

lemma createOrder_rejects:
  "(\<exists>e. fst (createOrder req env db) = Next e)
   \<and> orders (snd (createOrder req env db)) = orders db"
proof (cases "co_items req = []")
  case True
  then show ?thesis by (simp add: createOrder_def)
next
  case False
  obtain r ps where loop: "orderLoop (co_items req) [] 0 (products db) = (r, ps)"
    by (cases "orderLoop (co_items req) [] 0 (products db)")
  show ?thesis
  proof (cases r)
    case (Inl e)
    with False loop show ?thesis by (simp add: createOrder_def)
  next
    case (Inr res)
    obtain oi s where res: "res = (oi, s)" by (cases res)
    obtain m fs where "Order_create env None (co_user req) (co_customer req) oi s
        (calculateDeliveryFee (city (co_customer req)))
        (map_option (\<lambda>f. s + f) (calculateDeliveryFee (city (co_customer req))))
        (case co_paymentMethod req of None \<Rightarrow> mpesa | Some pm \<Rightarrow> pm) (co_notes req)
        = Inl (ValidationError m fs)"
      using Order_create_unnumbered by blast
    with False loop Inr res show ?thesis by (simp add: createOrder_def Let_def)
  qed
qed


section \<open>Order creation and stock\<close>

text \<open>
  Claim C1 does not hold of \<open>createOrder\<close>. The request asks for one chair (3 in stock)
  and five desks (2 in stock). The loop takes the chair from the stock, then finds the
  desks insufficient and returns the error that names the desk; no order is stored, and
  the chair's stock stays at 2: the decrement made for the earlier item is not released.
\<close>

theorem createOrder_partial_reservation:
  "fst (createOrder createReq env0 db0) = Next (ErrorResponse ''Insufficient stock for Desk'' 400)
   \<and> orders (snd (createOrder createReq env0 db0)) = orders db0
   \<and> map_option stock (products db0 ''p1'') = Some 3
   \<and> map_option stock (products (snd (createOrder createReq env0 db0)) ''p1'') = Some 2"
  by (simp add: createOrder_def createReq_def db0_def catalog_def chair_def
      desk_def effectivePrice_def firstImage_def Let_def updateStock_def)

end
